theory Spec2Isabelle
  imports Main "HOL-Library.Sublist"
begin

section \<open>Text\<close>

text \<open>
  A Python \<^verbatim>\<open>str\<close> is a sequence of code points. The model reads a \<^typ>\<open>string\<close> as such a
  sequence over the code points U+0000 .. U+00FF (Latin-1), one \<^typ>\<open>char\<close> per Python
  character, so \<^const>\<open>length\<close> is Python's \<^verbatim>\<open>len\<close>. The character tables below are
  those of Python's \<^verbatim>\<open>str.lower\<close>, \<^verbatim>\<open>str.upper\<close>, \<^verbatim>\<open>str.isspace\<close> and of the
  regular-expression class \<^verbatim>\<open>\w\<close> on that range.
\<close>

definition code_point :: "char \<Rightarrow> nat" where
  "code_point c = of_char c"

definition is_space :: "char \<Rightarrow> bool" where
  "is_space c = (let n = code_point c in
     (9 \<le> n \<and> n \<le> 13) \<or> (28 \<le> n \<and> n \<le> 32) \<or> n = 133 \<or> n = 160)"

definition is_word :: "char \<Rightarrow> bool" where
  "is_word c = (let n = code_point c in
     (48 \<le> n \<and> n \<le> 57) \<or> (65 \<le> n \<and> n \<le> 90) \<or> n = 95 \<or> (97 \<le> n \<and> n \<le> 122)
     \<or> n = 170 \<or> n = 178 \<or> n = 179 \<or> n = 181 \<or> n = 185 \<or> n = 186
     \<or> (188 \<le> n \<and> n \<le> 190) \<or> (192 \<le> n \<and> n \<noteq> 215 \<and> n \<noteq> 247))"

definition lower_char :: "char \<Rightarrow> char" where
  "lower_char c = (let n = code_point c in
     if (65 \<le> n \<and> n \<le> 90) \<or> (192 \<le> n \<and> n \<le> 222 \<and> n \<noteq> 215)
     then char_of (n + 32) else c)"

text \<open>\<^verbatim>\<open>s.lower()\<close>: on Latin-1 every character has a one-character lowercase form.\<close>

definition str_lower :: "string \<Rightarrow> string" where
  "str_lower s = map lower_char s"

text \<open>
  \<^verbatim>\<open>s.upper()\<close> can leave Latin-1 (U+00B5 becomes U+039C, U+00FF becomes U+0178) and can
  lengthen the text (U+00DF becomes SS), so its result is a list of code points.
\<close>

definition upper_char :: "char \<Rightarrow> nat list" where
  "upper_char c = (let n = code_point c in
     if (97 \<le> n \<and> n \<le> 122) \<or> (224 \<le> n \<and> n \<le> 254 \<and> n \<noteq> 247) then [n - 32]
     else if n = 223 then [83, 83]
     else if n = 181 then [924]
     else if n = 255 then [376]
     else [n])"

definition str_upper :: "string \<Rightarrow> nat list" where
  "str_upper s = concat (map upper_char s)"

definition code_points :: "string \<Rightarrow> nat list" where
  "code_points s = map code_point s"

text \<open>\<^verbatim>\<open>s.strip()\<close>: leading and trailing whitespace removed.\<close>

definition str_strip :: "string \<Rightarrow> string" where
  "str_strip s = rev (dropWhile is_space (rev (dropWhile is_space s)))"

text \<open>\<^verbatim>\<open>s[:k]\<close> for a Python integer \<open>k\<close>: a negative \<open>k\<close> counts from the end.\<close>

definition slice_to :: "int \<Rightarrow> 'a list \<Rightarrow> 'a list" where
  "slice_to k s = (if 0 \<le> k then take (nat k) s else take (nat (int (length s) + k)) s)"

text \<open>\<^verbatim>\<open>s[-k:]\<close> for a positive literal \<open>k\<close>: the last \<open>k\<close> elements, or all of them.\<close>

definition last_n :: "nat \<Rightarrow> 'a list \<Rightarrow> 'a list" where
  "last_n k s = drop (length s - k) s"

text \<open>\<^verbatim>\<open>str(n)\<close> of an integer, as the f-strings format it.\<close>

fun str_nat :: "nat \<Rightarrow> string" where
  "str_nat n = (if n < 10 then [''0123456789'' ! n]
                else str_nat (n div 10) @ [''0123456789'' ! (n mod 10)])"

definition str_int :: "int \<Rightarrow> string" where
  "str_int i = (if i < 0 then CHR ''-'' # str_nat (nat (- i)) else str_nat (nat i))"

section \<open>Regular expressions of the question classifier\<close>

text \<open>
  The four patterns of \<^verbatim>\<open>is_academic_question\<close> are sequences of these atoms:
  an alternation of literal words \<^verbatim>\<open>(a|b|c)\<close>, the word boundary \<^verbatim>\<open>\b\<close>, \<^verbatim>\<open>\s+\<close>
  and \<^verbatim>\<open>.*\<close> (where \<^verbatim>\<open>.\<close> is any character but the newline). \<open>ends a s i\<close> lists
  the positions at which a match of atom \<open>a\<close> that starts at position \<open>i\<close> of \<open>s\<close> can end;
  \<^verbatim>\<open>re.search\<close> asks for a match of the whole sequence starting at any position.
\<close>

datatype atom = Alt "string list" | WordBoundary | Whitespace1 | DotStar

type_synonym pattern = "atom list"

definition word_boundary :: "string \<Rightarrow> nat \<Rightarrow> bool" where
  "word_boundary s i =
     ((0 < i \<and> i \<le> length s \<and> is_word (s ! (i - 1))) \<noteq> (i < length s \<and> is_word (s ! i)))"

fun ends :: "atom \<Rightarrow> string \<Rightarrow> nat \<Rightarrow> nat list" where
  "ends (Alt ws) s i =
     map (\<lambda>w. i + length w) (filter (\<lambda>w. take (length w) (drop i s) = w) ws)"
| "ends WordBoundary s i = (if word_boundary s i then [i] else [])"
| "ends Whitespace1 s i =
     map (\<lambda>k. i + k) [1 ..< Suc (length (takeWhile is_space (drop i s)))]"
| "ends DotStar s i =
     map (\<lambda>k. i + k) [0 ..< Suc (length (takeWhile (\<lambda>c. c \<noteq> CHR 0x0A) (drop i s)))]"

fun match_from :: "pattern \<Rightarrow> string \<Rightarrow> nat \<Rightarrow> bool" where
  "match_from [] s i = True"
| "match_from (a # as) s i = list_ex (match_from as s) (ends a s i)"

definition re_search :: "pattern \<Rightarrow> string \<Rightarrow> bool" where
  "re_search p s = list_ex (match_from p s) [0 ..< Suc (length s)]"

section \<open>Question classifier (\<^verbatim>\<open>GeminiService.is_academic_question\<close>)\<close>

definition academic_keywords :: "string list" where
  "academic_keywords =
    [''research'', ''study'', ''analysis'', ''theory'', ''hypothesis'', ''methodology'',
     ''literature'', ''academic'', ''scholarly'', ''scientific'', ''experiment'',
     ''data'', ''findings'', ''conclusion'', ''abstract'', ''thesis'', ''dissertation'',
     ''journal'', ''publication'', ''citation'', ''reference'', ''bibliography'',
     ''education'', ''learning'', ''course'', ''curriculum'', ''syllabus'',
     ''concept'', ''principle'', ''framework'', ''model'', ''paradigm'']"

definition non_academic_keywords :: "string list" where
  "non_academic_keywords =
    [''entertainment'', ''movie'', ''game'', ''music'', ''celebrity'', ''gossip'',
     ''shopping'', ''recipe'', ''cooking'', ''fashion'', ''sports'', ''weather'',
     ''personal'', ''relationship'', ''dating'', ''social media'', ''meme'']"

definition academic_patterns :: "pattern list" where
  "academic_patterns =
    [[WordBoundary, Alt [''what'', ''how'', ''why'', ''when'', ''where''], Whitespace1,
      Alt [''is'', ''are'', ''does'', ''do'', ''did'', ''can'', ''could'', ''would'', ''should''],
      WordBoundary, DotStar, WordBoundary,
      Alt [''concept'', ''theory'', ''principle'', ''method'', ''approach'', ''framework''],
      WordBoundary],
     [WordBoundary, Alt [''explain''], Whitespace1,
      Alt [''the'', ''this'', ''that'', ''how'', ''why''], WordBoundary],
     [WordBoundary,
      Alt [''analyze'', ''examine'', ''discuss'', ''evaluate'', ''compare'', ''contrast'',
           ''critique''],
      WordBoundary],
     [WordBoundary,
      Alt [''according to'', ''based on'', ''as mentioned in'', ''as stated in''],
      WordBoundary, DotStar, WordBoundary,
      Alt [''document'', ''paper'', ''text'', ''study'', ''research''], WordBoundary]]"

text \<open>
  \<^verbatim>\<open>keyword in question_lower\<close> is the contiguous-substring test \<^const>\<open>sublist\<close>. The three
  loops return at their first hit; the last statement returns \<open>True\<close> as well.
\<close>

definition is_academic_question :: "string \<Rightarrow> bool" where
  "is_academic_question question =
     (let question_lower = str_lower question in
      if list_ex (\<lambda>keyword. sublist keyword question_lower) non_academic_keywords then False
      else if list_ex (\<lambda>keyword. sublist keyword question_lower) academic_keywords then True
      else if list_ex (\<lambda>pattern. re_search pattern question_lower) academic_patterns then True
      else True)"


section \<open>The external text-generation capability\<close>

text \<open>
  \<^verbatim>\<open>self.model.generate_content(prompt)\<close> followed by \<^verbatim>\<open>response.text\<close> either yields the
  reply text or raises; \<open>Failure\<close> carries \<^verbatim>\<open>str(e)\<close> of the exception. The capability is
  a parameter of the model and may answer differently on every call: its reply depends on
  the prompts it has already received. The state threaded through the service is the log
  of prompts sent so far.
\<close>

datatype reply = Reply string | Failure string

type_synonym capability = "string list \<Rightarrow> string \<Rightarrow> reply"

definition generate_content :: "capability \<Rightarrow> string list \<Rightarrow> string \<Rightarrow> reply \<times> string list" where
  "generate_content cap log prompt = (cap log prompt, log @ [prompt])"

definition always_reply :: "string \<Rightarrow> capability" where
  "always_reply r log prompt = Reply r"

definition always_fail :: "string \<Rightarrow> capability" where
  "always_fail e log prompt = Failure e"

section \<open>Document classifier (\<^verbatim>\<open>GeminiService.is_academic_content\<close>)\<close>

definition academic_checker_prompt :: string where
  \<open>academic_checker_prompt =
     ''\<newline>''
   @ ''        You are an academic content classifier. Your task is to determine if the given content is academic in nature.\<newline>''
   @ ''        \<newline>''
   @ ''        Academic content includes:\<newline>''
   @ ''        - Research papers, studies, and scholarly articles\<newline>''
   @ ''        - Educational materials and textbooks\<newline>''
   @ ''        - Scientific data and analysis\<newline>''
   @ ''        - Academic presentations and lectures\<newline>''
   @ ''        - Thesis and dissertation content\<newline>''
   @ ''        - Course materials and syllabi\<newline>''
   @ ''        - Academic journals and publications\<newline>''
   @ ''        - Educational assessments and assignments\<newline>''
   @ ''        \<newline>''
   @ ''        Non-academic content includes:\<newline>''
   @ ''        - Personal documents (resumes, letters, etc.)\<newline>''
   @ ''        - Entertainment content (novels, movies, games, etc.)\<newline>''
   @ ''        - Commercial or marketing materials\<newline>''
   @ ''        - Social media content\<newline>''
   @ ''        - News articles (unless specifically academic research)\<newline>''
   @ ''        - General web content\<newline>''
   @ ''        - Personal photos or casual images\<newline>''
   @ ''        \<newline>''
   @ ''        Respond with only "ACADEMIC" or "NON_ACADEMIC" based on the content classification.\<newline>''
   @ ''        \<newline>''
   @ ''        Content to classify:\<newline>''
   @ ''        ''\<close>

text \<open>
  The whole body sits in a \<^verbatim>\<open>try\<close>: a reply is compared, stripped and uppercased, with
  \<^verbatim>\<open>"ACADEMIC"\<close>; any exception gives \<open>True\<close>. The message printed on that path is not
  modelled.
\<close>

definition is_academic_content ::
  "capability \<Rightarrow> string list \<Rightarrow> string \<Rightarrow> bool \<times> string list" where
  "is_academic_content cap log content =
     (let prompt = academic_checker_prompt @ take 2000 content;
          (response, log') = generate_content cap log prompt
      in case response of
           Reply t \<Rightarrow> (str_upper (str_strip t) = code_points ''ACADEMIC'', log')
         | Failure e \<Rightarrow> (True, log'))"

section \<open>Title and summary synthesis\<close>

text \<open>The f-string prompts of \<^verbatim>\<open>generate_chat_title\<close> and \<^verbatim>\<open>summarize_document\<close>.\<close>

definition title_prompt :: "int \<Rightarrow> string \<Rightarrow> string" where
  \<open>title_prompt max_length first_message =
     ''\<newline>''
   @ ''            Generate a concise, descriptive title (maximum '' @ str_int max_length
   @ '' characters) for a chat conversation based on this first message:\<newline>''
   @ ''            \<newline>''
   @ ''            "'' @ first_message @ ''"\<newline>''
   @ ''            \<newline>''
   @ ''            The title should:\<newline>''
   @ ''            - Be clear and specific\<newline>''
   @ ''            - Capture the main topic or question\<newline>''
   @ ''            - Be suitable for academic/research context\<newline>''
   @ ''            - Not exceed '' @ str_int max_length @ '' characters\<newline>''
   @ ''            \<newline>''
   @ ''            Respond with only the title, no additional text.\<newline>''
   @ ''            ''\<close>

definition summary_prompt :: "int \<Rightarrow> string \<Rightarrow> string" where
  \<open>summary_prompt max_length content =
     ''\<newline>''
   @ ''            Provide a concise summary (maximum '' @ str_int max_length
   @ '' characters) of this academic document:\<newline>''
   @ ''            \<newline>''
   @ ''            '' @ content @ ''\<newline>''
   @ ''            \<newline>''
   @ ''            Focus on:\<newline>''
   @ ''            - Main topic and objectives\<newline>''
   @ ''            - Key findings or concepts\<newline>''
   @ ''            - Relevance for academic study\<newline>''
   @ ''            \<newline>''
   @ ''            Respond with only the summary.\<newline>''
   @ ''            ''\<close>

text \<open>
  \<^verbatim>\<open>max_length\<close> is a Python integer; \<^verbatim>\<open>title[:max_length-3]\<close> is \<^const>\<open>slice_to\<close>, which
  counts from the end when \<^verbatim>\<open>max_length < 3\<close>. On an exception the title falls back to the
  first message, cut the same way.
\<close>

definition generate_chat_title ::
  "capability \<Rightarrow> string list \<Rightarrow> string \<Rightarrow> int \<Rightarrow> string \<times> string list" where
  "generate_chat_title cap log first_message max_length =
     (let prompt = title_prompt max_length first_message;
          (response, log') = generate_content cap log prompt
      in case response of
           Reply t \<Rightarrow>
             (let title = str_strip t
              in (if int (length title) > max_length
                  then slice_to (max_length - 3) title @ ''...'' else title, log'))
         | Failure e \<Rightarrow>
             (if int (length first_message) > max_length
              then slice_to (max_length - 3) first_message @ ''...'' else first_message, log'))"

definition summarize_document ::
  "capability \<Rightarrow> string list \<Rightarrow> string \<Rightarrow> int \<Rightarrow> string \<times> string list" where
  "summarize_document cap log content max_length =
     (let prompt = summary_prompt max_length content;
          (response, log') = generate_content cap log prompt
      in case response of
           Reply t \<Rightarrow>
             (let summary = str_strip t
              in (if int (length summary) > max_length
                  then slice_to (max_length - 3) summary @ ''...'' else summary, log'))
         | Failure e \<Rightarrow> (''Document summary unavailable: '' @ e, log'))"

section \<open>Response generation (\<^verbatim>\<open>GeminiService.generate_response\<close>)\<close>

text \<open>
  A chat message as the persistence layer returns it: a row with its chat, content, role
  and sequence number. \<^verbatim>\<open>generate_response\<close> reads \<^verbatim>\<open>msg['role']\<close> and \<^verbatim>\<open>msg['content']\<close>.
\<close>

record message =
  msg_chat_id :: string
  msg_content :: string
  msg_role :: string
  msg_order :: int

text \<open>
  The result dictionary: \<^verbatim>\<open>{'success': True, 'response': r, 'is_academic': b}\<close> or
  \<^verbatim>\<open>{'success': False, 'error': e}\<close>.
\<close>

datatype gen_result = GenSuccess string bool | GenFailure string

fun success :: "gen_result \<Rightarrow> bool" where
  "success (GenSuccess r b) = True"
| "success (GenFailure e) = False"

definition system_prompt :: string where
  \<open>system_prompt =
     ''\<newline>''
   @ ''        You are an AI assistant specialized in academic research and study. Your primary function is to help users understand and analyze academic content from their uploaded documents.\<newline>''
   @ ''\<newline>''
   @ ''        IMPORTANT GUIDELINES:\<newline>''
   @ ''        1. You ONLY answer questions related to academic research and study\<newline>''
   @ ''        2. If a question is not academic in nature, politely decline and explain your purpose\<newline>''
   @ ''        3. Base your answers on the provided document content when available\<newline>''
   @ ''        4. If asked about non-academic content in a document, respond: "The information found in this document is not academic related, and this application is built for academic study and research."\<newline>''
   @ ''        5. Provide clear, well-structured, and educational responses\<newline>''
   @ ''        6. Cite specific parts of documents when referencing them\<newline>''
   @ ''        7. Encourage further academic inquiry and learning\<newline>''
   @ ''\<newline>''
   @ ''        Always maintain a helpful, professional, and educational tone.\<newline>''
   @ ''        ''\<close>

definition off_topic_message :: string where
  "off_topic_message = ''I'm designed specifically for academic study and research purposes. Please ask questions related to academic content, research, or educational materials.''"

definition not_academic_document_message :: string where
  "not_academic_document_message = ''The information found in this document is not academic related, and this application is built for academic study and research.''"

text \<open>
  The source writes its separators as \<^verbatim>\<open>"\\n"\<close> in ordinary string literals: the two
  characters backslash and \<open>n\<close>.
\<close>

definition sep :: string where
  "sep = [CHR 0x5C, CHR ''n'']"

text \<open>The loop that partitions the extracts, one classification call per extract.\<close>

fun classify_docs ::
  "capability \<Rightarrow> string list \<Rightarrow> string list \<Rightarrow> string list \<times> string list \<times> string list" where
  "classify_docs cap log [] = ([], [], log)"
| "classify_docs cap log (doc_content # rest) =
     (let (academic, log1) = is_academic_content cap log doc_content;
          (academic_docs, non_academic_docs, log2) = classify_docs cap log1 rest
      in if academic then (doc_content # academic_docs, non_academic_docs, log2)
         else (academic_docs, doc_content # non_academic_docs, log2))"

definition document_section :: "string list \<Rightarrow> string list" where
  "document_section academic_docs =
     (if academic_docs \<noteq> []
      then (sep @ sep @ ''Document Content:'')
           # map (\<lambda>(i, doc). sep @ ''--- Document '' @ str_nat (i + 1) @ '' ---'' @ sep @ doc)
                 (enumerate 0 academic_docs)
      else [])"

definition render_turn :: "message \<Rightarrow> string" where
  "render_turn msg =
     sep @ (if msg_role msg = ''user'' then ''User'' else ''Assistant'') @ '': '' @ msg_content msg"

definition history_section :: "message list \<Rightarrow> string list" where
  "history_section chat_history =
     (if chat_history \<noteq> []
      then (sep @ sep @ ''Previous Conversation:'') # map render_turn (last_n 10 chat_history)
      else [])"

text \<open>\<^verbatim>\<open>context_parts\<close> when the generation call is reached.\<close>

definition context_parts :: "string \<Rightarrow> string list \<Rightarrow> message list \<Rightarrow> string list" where
  "context_parts question academic_docs chat_history =
     [system_prompt] @ document_section academic_docs @ history_section chat_history
     @ [sep @ sep @ ''Current Question: '' @ question,
        sep @ sep @ ''Please provide a comprehensive, academic response:'']"

text \<open>
  \<^verbatim>\<open>document_contents\<close> and \<^verbatim>\<open>chat_history\<close> default to \<^verbatim>\<open>None\<close>, which the source
  tests like the empty list; both are lists here. Any exception of the generation call is
  caught and becomes the failure result.
\<close>

definition generate_response ::
  "capability \<Rightarrow> string list \<Rightarrow> string \<Rightarrow> string list \<Rightarrow> message list
     \<Rightarrow> gen_result \<times> string list" where
  "generate_response cap log question document_contents chat_history =
     (if \<not> is_academic_question question then (GenSuccess off_topic_message False, log)
      else
        let (academic_docs, non_academic_docs, log1) =
              (if document_contents \<noteq> [] then classify_docs cap log document_contents
               else ([], [], log))
        in if document_contents \<noteq> [] \<and> non_academic_docs \<noteq> [] \<and> academic_docs = []
           then (GenSuccess not_academic_document_message False, log1)
           else
             let full_prompt = concat (context_parts question academic_docs chat_history);
                 (response, log2) = generate_content cap log1 full_prompt
             in case response of
                  Reply t \<Rightarrow> (GenSuccess t True, log2)
                | Failure e \<Rightarrow> (GenFailure (''Error generating response: '' @ e), log2))"

text \<open>The prompt of the classification call for one extract.\<close>

definition classify_prompt :: "string \<Rightarrow> string" where
  "classify_prompt doc_content = academic_checker_prompt @ take 2000 doc_content"

section \<open>Persistence (\<^verbatim>\<open>SupabaseService\<close>)\<close>

text \<open>
  The tables the message flow touches. Every method of the service sends one request to
  the database inside a \<^verbatim>\<open>try\<close> and turns any exception into a failure result, so the
  environment decides, request by request, whether the request raises (\<open>Some e\<close>, with
  \<open>e\<close> the text of the exception) or is served. A request that raises changes no table.
  Rows carry the columns the flow reads.
\<close>

record chat =
  chat_ident :: string
  chat_user :: string
  chat_title :: string

record file_record =
  file_chat :: string
  file_user :: string
  processed_content :: "string option"

record database =
  chats :: "chat list"
  messages :: "message list"
  files :: "file_record list"

record world =
  store :: database
  requests :: nat
  prompt_log :: "string list"

type_synonym outage = "nat \<Rightarrow> string option"


definition request :: "outage \<Rightarrow> world \<Rightarrow> string option \<times> world" where
  "request down w = (down (requests w), w\<lparr>requests := requests w + 1\<rparr>)"







section \<open>The message endpoint (\<^verbatim>\<open>send_message\<close> in \<^verbatim>\<open>routes/chat.py\<close>)\<close>







section \<open>Example inputs\<close>


definition example_history :: "message list" where
  "example_history =
     map (\<lambda>i. \<lparr>msg_chat_id = ''c1'', msg_content = ''turn '' @ str_nat i,
               msg_role = (if odd i then ''user'' else ''assistant''), msg_order = int i\<rparr>)
         [1 ..< 12]"



section \<open>Properties of the text operations\<close>


lemma str_lower_append: "str_lower (xs @ ys) = str_lower xs @ str_lower ys"
  by (simp add: str_lower_def)


lemma sublist_lower_iff:
  "sublist k (str_lower q) \<longleftrightarrow> (\<exists>pre w post. q = pre @ w @ post \<and> str_lower w = k)"
proof
  assume "sublist k (str_lower q)"
  then obtain ps ss where e: "map lower_char q = ps @ k @ ss"
    unfolding sublist_def str_lower_def by blast
  then obtain pre r where q1: "q = pre @ r" and r: "k @ ss = map lower_char r"
    unfolding map_eq_append_conv by blast
  from r obtain w post where "r = w @ post" and "k = map lower_char w"
    unfolding append_eq_map_conv by blast
  with q1 show "\<exists>pre w post. q = pre @ w @ post \<and> str_lower w = k"
    unfolding str_lower_def by blast
next
  assume "\<exists>pre w post. q = pre @ w @ post \<and> str_lower w = k"
  then obtain pre w post where "q = pre @ w @ post" and "str_lower w = k"
    by blast
  then show "sublist k (str_lower q)"
    by (metis str_lower_append sublist_appendI)
qed

section \<open>Properties of the question classifier\<close>

lemma is_academic_question_iff:
  "is_academic_question q \<longleftrightarrow>
     \<not> list_ex (\<lambda>keyword. sublist keyword (str_lower q)) non_academic_keywords"
  by (simp add: is_academic_question_def Let_def)

lemma non_academic_keyword_blocks:
  assumes "keyword \<in> set non_academic_keywords" and "sublist keyword (str_lower q)"
  shows "\<not> is_academic_question q"
  using assms unfolding is_academic_question_iff list_ex_iff by blast

text \<open>
  C4. A question that contains a keyword of the non-academic set, in any letter case, is
  classified NON_ACADEMIC: whatever else the question contains, academic keywords and
  structural patterns included, \<^const>\<open>is_academic_question\<close> returns \<open>False\<close>.
\<close>

theorem non_academic_keyword_precedence:
  assumes "keyword \<in> set non_academic_keywords"
    and "question = pre @ w @ post"
    and "str_lower w = keyword"
  shows "is_academic_question question = False"
proof -
  from assms(2,3) have "sublist keyword (str_lower question)"
    unfolding sublist_lower_iff by blast
  with assms(1) show ?thesis
    by (simp add: non_academic_keyword_blocks)
qed

theorem non_academic_keyword_precedence_witness:
  "''game'' \<in> set non_academic_keywords
   \<and> ''Research on GAME theory'' = ''Research on '' @ ''GAME'' @ '' theory''
   \<and> str_lower ''GAME'' = ''game''
   \<and> list_ex (\<lambda>k. sublist k (str_lower ''Research on GAME theory'')) academic_keywords
   \<and> is_academic_question ''Research on GAME theory'' = False"
proof -
  have k: "''game'' \<in> set non_academic_keywords"
    by (simp add: non_academic_keywords_def)
  have d: "''Research on GAME theory'' = ''Research on '' @ ''GAME'' @ '' theory''"
    by simp
  have l: "str_lower ''GAME'' = ''game''"
    by code_simp
  have a: "list_ex (\<lambda>k. sublist k (str_lower ''Research on GAME theory'')) academic_keywords"
    by code_simp
  from non_academic_keyword_precedence [OF k d l] k d l a show ?thesis
    by blast
qed

text \<open>
  C8. A question in which no keyword of either set occurs and which none of the structural
  patterns matches is classified ACADEMIC.
\<close>

theorem default_is_academic:
  assumes "\<forall>keyword \<in> set non_academic_keywords \<union> set academic_keywords.
             \<not> sublist keyword (str_lower question)"
    and "\<forall>pattern \<in> set academic_patterns. \<not> re_search pattern (str_lower question)"
  shows "is_academic_question question = True"
  using assms(1) unfolding is_academic_question_iff list_ex_iff by blast

theorem default_is_academic_witness:
  "\<not> list_ex (\<lambda>keyword. sublist keyword (str_lower ''What is the capital of France?''))
         (non_academic_keywords @ academic_keywords)
   \<and> \<not> list_ex (\<lambda>pattern. re_search pattern (str_lower ''What is the capital of France?''))
         academic_patterns
   \<and> is_academic_question ''What is the capital of France?'' = True"
proof -
  have k: "\<not> list_ex (\<lambda>keyword. sublist keyword (str_lower ''What is the capital of France?''))
         (non_academic_keywords @ academic_keywords)"
    by code_simp
  have p: "\<not> list_ex (\<lambda>pattern. re_search pattern (str_lower ''What is the capital of France?''))
         academic_patterns"
    by code_simp
  from k have h1: "\<forall>keyword \<in> set non_academic_keywords \<union> set academic_keywords.
      \<not> sublist keyword (str_lower ''What is the capital of France?'')"
    unfolding list_ex_iff by simp
  from p have h2: "\<forall>pattern \<in> set academic_patterns.
      \<not> re_search pattern (str_lower ''What is the capital of France?'')"
    unfolding list_ex_iff by simp
  from default_is_academic [OF h1 h2] k p show ?thesis
    by blast
qed



section \<open>Properties of the document classifier\<close>

text \<open>
  C1 (as amended). When the external call fails, \<^const>\<open>is_academic_content\<close> returns \<open>True\<close>.
  When the call returns a reply, the verdict is \<open>True\<close> exactly when the reply, stripped
  and uppercased, is \<open>ACADEMIC\<close>; every other reply gives \<open>False\<close>.
\<close>

theorem content_verdict:
  "fst (is_academic_content cap log content) =
     (case cap log (academic_checker_prompt @ take 2000 content) of
        Failure e \<Rightarrow> True
      | Reply t \<Rightarrow> str_upper (str_strip t) = code_points ''ACADEMIC'')"
  by (simp add: is_academic_content_def generate_content_def Let_def split: reply.splits)

theorem content_verdict_witness:
  "fst (is_academic_content (always_fail ''deadline exceeded'') []
          ''Lecture notes on thermodynamics'') = True
   \<and> fst (is_academic_content (always_reply [CHR ''A'', CHR ''c'', CHR ''a'', CHR ''d'',
            CHR ''e'', CHR ''m'', CHR ''i'', CHR ''c'', CHR 0x0A]) []
          ''Lecture notes on thermodynamics'') = True
   \<and> fst (is_academic_content (always_reply ''NON_ACADEMIC'') [] ''my resume'') = False"
proof -
  have a: "str_upper (str_strip [CHR ''A'', CHR ''c'', CHR ''a'', CHR ''d'', CHR ''e'', CHR ''m'',
             CHR ''i'', CHR ''c'', CHR 0x0A]) = code_points ''ACADEMIC''"
    by code_simp
  have n: "str_upper (str_strip ''NON_ACADEMIC'') \<noteq> code_points ''ACADEMIC''"
    by code_simp
  show ?thesis
    unfolding content_verdict by (simp add: always_fail_def always_reply_def a n)
qed

text \<open>The claim as stated fails: an unrecognised reply is classified NON_ACADEMIC.\<close>

theorem unrecognised_reply_counterexample:
  "fst (is_academic_content (always_reply ''MAYBE'') [] ''Lecture notes on thermodynamics'')
     = False"
  by (simp add: is_academic_content_def generate_content_def always_reply_def, code_simp)

text \<open>
  C2 (as amended). The document classifier depends on the first 2000 characters of the
  text only: verdict and call log are those of the truncated text. The question classifier
  reads the whole question.
\<close>

theorem content_verdict_truncation:
  "is_academic_content cap log content = is_academic_content cap log (take 2000 content)"
  by (simp add: is_academic_content_def)

theorem content_verdict_truncation_witness:
  "is_academic_content (always_reply ''ACADEMIC'') [] (replicate 2000 CHR ''a'' @ ''game'')
     = is_academic_content (always_reply ''ACADEMIC'') [] (replicate 2000 CHR ''a'')"
  using content_verdict_truncation
    [of "always_reply ''ACADEMIC''" "[]" "replicate 2000 CHR ''a'' @ ''game''"]
  by simp

theorem question_truncation_counterexample:
  "is_academic_question (replicate 2000 CHR ''a'' @ ''game'')
     \<noteq> is_academic_question (take 2000 (replicate 2000 CHR ''a'' @ ''game''))"
proof -
  have la: "lower_char CHR ''a'' = CHR ''a''"
    by code_simp
  have "sublist ''game'' (str_lower (replicate 2000 CHR ''a'' @ ''game''))"
    unfolding sublist_lower_iff
  proof (intro exI conjI)
    show "replicate 2000 CHR ''a'' @ ''game'' = replicate 2000 CHR ''a'' @ ''game'' @ []"
      by simp
    show "str_lower ''game'' = ''game''"
      by code_simp
  qed
  moreover have "''game'' \<in> set non_academic_keywords"
    by (simp add: non_academic_keywords_def)
  ultimately have long: "\<not> is_academic_question (replicate 2000 CHR ''a'' @ ''game'')"
    using non_academic_keyword_blocks by blast
  have "\<not> sublist k (replicate 2000 CHR ''a'')" if "k \<in> set non_academic_keywords" for k
  proof
    assume "sublist k (replicate 2000 CHR ''a'')"
    then have "set k \<subseteq> set (replicate 2000 CHR ''a'')"
      by (rule set_mono_sublist)
    then have "set k \<subseteq> {CHR ''a''}"
      by simp
    with that show False
      unfolding non_academic_keywords_def by auto
  qed
  then have "is_academic_question (replicate 2000 CHR ''a'')"
    unfolding is_academic_question_iff list_ex_iff str_lower_def
    by (simp add: la)
  then have "is_academic_question (take 2000 (replicate 2000 CHR ''a'' @ ''game''))"
    by simp
  with long show ?thesis
    by blast
qed

section \<open>Properties of the synthesizer\<close>

lemma truncate_length:
  assumes "3 \<le> m" and "m < int (length s)"
  shows "int (length (slice_to (m - 3) s @ ''...'')) = m"
  using assms by (simp add: slice_to_def)

lemma truncate_take:
  assumes "3 \<le> m"
  shows "slice_to (m - 3) s = take (nat (m - 3)) s"
  using assms by (simp add: slice_to_def)

text \<open>
  C5 (as amended). For \<open>max_length\<close> of at least 3, \<^const>\<open>generate_chat_title\<close> returns at
  most \<open>max_length\<close> characters whatever the capability does, and \<^const>\<open>summarize_document\<close>
  does whenever the capability replies; a reply longer than \<open>max_length\<close> is cut to its
  first \<open>max_length - 3\<close> characters followed by three dots. When the capability fails,
  the summary is the fixed prefix followed by the error text, of any length.
\<close>

theorem synthesis_length_bound:
  assumes "3 \<le> max_length"
  shows "int (length (fst (generate_chat_title cap log first_message max_length))) \<le> max_length
    \<and> (case cap log (title_prompt max_length first_message) of
         Reply t \<Rightarrow> fst (generate_chat_title cap log first_message max_length)
              = (if max_length < int (length (str_strip t))
                 then take (nat (max_length - 3)) (str_strip t) @ ''...'' else str_strip t)
       | Failure e \<Rightarrow> fst (generate_chat_title cap log first_message max_length)
              = (if max_length < int (length first_message)
                 then take (nat (max_length - 3)) first_message @ ''...'' else first_message))
    \<and> (case cap log (summary_prompt max_length content) of
         Reply t \<Rightarrow> int (length (fst (summarize_document cap log content max_length))) \<le> max_length
            \<and> fst (summarize_document cap log content max_length)
              = (if max_length < int (length (str_strip t))
                 then take (nat (max_length - 3)) (str_strip t) @ ''...'' else str_strip t)
       | Failure e \<Rightarrow> fst (summarize_document cap log content max_length)
              = ''Document summary unavailable: '' @ e)"
proof (intro conjI)
  show "int (length (fst (generate_chat_title cap log first_message max_length))) \<le> max_length"
    using truncate_length [OF assms]
    by (auto simp: generate_chat_title_def generate_content_def Let_def split: reply.splits)
  show "case cap log (title_prompt max_length first_message) of
         Reply t \<Rightarrow> fst (generate_chat_title cap log first_message max_length)
              = (if max_length < int (length (str_strip t))
                 then take (nat (max_length - 3)) (str_strip t) @ ''...'' else str_strip t)
       | Failure e \<Rightarrow> fst (generate_chat_title cap log first_message max_length)
              = (if max_length < int (length first_message)
                 then take (nat (max_length - 3)) first_message @ ''...'' else first_message)"
    using truncate_take [OF assms]
    by (auto simp: generate_chat_title_def generate_content_def Let_def split: reply.splits)
  show "case cap log (summary_prompt max_length content) of
         Reply t \<Rightarrow> int (length (fst (summarize_document cap log content max_length))) \<le> max_length
            \<and> fst (summarize_document cap log content max_length)
              = (if max_length < int (length (str_strip t))
                 then take (nat (max_length - 3)) (str_strip t) @ ''...'' else str_strip t)
       | Failure e \<Rightarrow> fst (summarize_document cap log content max_length)
              = ''Document summary unavailable: '' @ e"
    using truncate_length [OF assms] truncate_take [OF assms]
    by (auto simp: summarize_document_def generate_content_def Let_def split: reply.splits)
qed

theorem synthesis_length_bound_witness:
  "(3::int) \<le> 50
   \<and> int (length (fst (generate_chat_title (always_reply (replicate 60 CHR ''x'')) []
                        ''What is entropy?'' 50))) \<le> 50
   \<and> fst (generate_chat_title (always_reply (replicate 60 CHR ''x'')) [] ''What is entropy?'' 50)
       = replicate 47 CHR ''x'' @ ''...''
   \<and> fst (summarize_document (always_reply (replicate 60 CHR ''x'')) [] ''Entropy.'' 50)
       = replicate 47 CHR ''x'' @ ''...''"
proof -
  have h: "(3::int) \<le> 50"
    by simp
  have x: "\<not> is_space CHR ''x''"
    by code_simp
  have s: "str_strip (replicate 60 CHR ''x'') = replicate 60 CHR ''x''"
    unfolding str_strip_def by (simp add: x dropWhile_replicate)
  from synthesis_length_bound [OF h, of "always_reply (replicate 60 CHR ''x'')" "[]"
      "''What is entropy?''" "''Entropy.''"]
  show ?thesis
    by (simp add: always_reply_def s)
qed

text \<open>
  Below 3 the slice \<^verbatim>\<open>title[:max_length-3]\<close> counts from the end of the reply, and the
  result can be longer than \<open>max_length\<close>.
\<close>

lemma title_small_bound_example:
  "fst (generate_chat_title (always_reply ''abcdef'') [] ''What is entropy?'' 2) = ''abcde...''"
proof -
  have s: "str_strip ''abcdef'' = ''abcdef''"
    by code_simp
  show ?thesis
    by (simp add: generate_chat_title_def generate_content_def always_reply_def s slice_to_def)
qed

text \<open>
  The claim as stated fails: when the external call fails with a long error text, the
  summary is longer than the default bound of 500.
\<close>

theorem summary_bound_counterexample:
  "\<not> int (length (fst (summarize_document (always_fail (replicate 471 CHR ''e'')) []
                         ''Lecture notes on thermodynamics'' 500))) \<le> 500"
  by (simp add: summarize_document_def generate_content_def always_fail_def)

section \<open>Properties of response generation\<close>

lemma is_academic_content_log:
  "snd (is_academic_content cap log d) = log @ [classify_prompt d]"
  by (simp add: is_academic_content_def generate_content_def classify_prompt_def Let_def
      split: reply.splits)

lemma classify_docs_log:
  "snd (snd (classify_docs cap log docs)) = log @ map classify_prompt docs"
proof (induction docs arbitrary: log)
  case Nil
  show ?case by simp
next
  case (Cons d ds)
  obtain b l1 where c: "is_academic_content cap log d = (b, l1)"
    by (cases "is_academic_content cap log d")
  with is_academic_content_log [of cap log d] have l1: "l1 = log @ [classify_prompt d]"
    by simp
  obtain a n l2 where r: "classify_docs cap l1 ds = (a, n, l2)"
    by (cases "classify_docs cap l1 ds") auto
  with Cons.IH [of l1] have "l2 = l1 @ map classify_prompt ds"
    by simp
  with c r l1 show ?case
    by simp
qed

lemma classify_docs_all_non_academic:
  assumes "\<forall>i < length docs.
             \<not> fst (is_academic_content cap (log @ map classify_prompt (take i docs)) (docs ! i))"
  shows "classify_docs cap log docs = ([], docs, log @ map classify_prompt docs)"
  using assms
proof (induction docs arbitrary: log)
  case Nil
  show ?case by simp
next
  case (Cons d ds)
  from Cons.prems have "\<not> fst (is_academic_content cap (log @ map classify_prompt (take 0 (d # ds))) ((d # ds) ! 0))"
    by blast
  then have first: "\<not> fst (is_academic_content cap log d)"
    by simp
  then have c: "is_academic_content cap log d = (False, log @ [classify_prompt d])"
    using is_academic_content_log [of cap log d]
    by (cases "is_academic_content cap log d") simp
  have "\<forall>i < length ds. \<not> fst (is_academic_content cap
          ((log @ [classify_prompt d]) @ map classify_prompt (take i ds)) (ds ! i))"
  proof (intro allI impI)
    fix i assume "i < length ds"
    then have "Suc i < length (d # ds)" by simp
    with Cons.prems have "\<not> fst (is_academic_content cap
        (log @ map classify_prompt (take (Suc i) (d # ds))) ((d # ds) ! Suc i))"
      by blast
    then show "\<not> fst (is_academic_content cap
          ((log @ [classify_prompt d]) @ map classify_prompt (take i ds)) (ds ! i))"
      by simp
  qed
  from Cons.IH [OF this] c show ?case
    by simp
qed

lemma classify_prompt_not_generation:
  "classify_prompt d \<noteq> concat (context_parts question academic_docs chat_history)"
proof
  assume "classify_prompt d = concat (context_parts question academic_docs chat_history)"
  then have "take 21 (classify_prompt d)
      = take 21 (concat (context_parts question academic_docs chat_history))"
    by simp
  then show False
    by (simp add: classify_prompt_def academic_checker_prompt_def context_parts_def
        system_prompt_def)
qed

lemma drop_as_nth: "drop n xs = map (\<lambda>i. xs ! i) [n ..< length xs]"
  by (rule nth_equalityI) auto

text \<open>
  C7. A question classified NON_ACADEMIC makes \<^const>\<open>generate_response\<close> return the fixed
  off-topic refusal as a successful result with \<open>is_academic = False\<close>. The log of prompts
  is returned unchanged: no extract is classified and no text is generated.
\<close>

theorem off_topic_short_circuit:
  assumes "is_academic_question question = False"
  shows "generate_response cap log question document_contents chat_history
           = (GenSuccess off_topic_message False, log)
         \<and> success (fst (generate_response cap log question document_contents chat_history))"
  using assms by (simp add: generate_response_def)

theorem off_topic_short_circuit_witness:
  "is_academic_question ''What is the latest celebrity gossip?'' = False
   \<and> generate_response (always_reply ''ACADEMIC'') [] ''What is the latest celebrity gossip?''
        [''lecture notes on thermodynamics''] example_history
       = (GenSuccess off_topic_message False, [])
   \<and> success (fst (generate_response (always_reply ''ACADEMIC'') []
        ''What is the latest celebrity gossip?'' [''lecture notes on thermodynamics'']
        example_history))"
proof -
  have q: "is_academic_question ''What is the latest celebrity gossip?'' = False"
    by code_simp
  from off_topic_short_circuit [OF q] q show ?thesis
    by blast
qed

text \<open>
  C3. With an academic question and a non-empty list of extracts each of which is
  classified NON_ACADEMIC when its turn comes, \<^const>\<open>generate_response\<close> returns the fixed
  "document not academic" refusal as a successful result with \<open>is_academic = False\<close>. The
  prompts sent are the classification prompts of the extracts, one each and in order;
  none of them is an assembled generation prompt, so the generation call is not made.
\<close>

theorem non_academic_documents_short_circuit:
  assumes "is_academic_question question"
    and "document_contents \<noteq> []"
    and "\<forall>i < length document_contents.
           \<not> fst (is_academic_content cap
                    (log @ map classify_prompt (take i document_contents))
                    (document_contents ! i))"
  shows "generate_response cap log question document_contents chat_history
           = (GenSuccess not_academic_document_message False,
              log @ map classify_prompt document_contents)
         \<and> success (fst (generate_response cap log question document_contents chat_history))
         \<and> concat (context_parts question academic_docs history)
             \<notin> set (map classify_prompt document_contents)"
proof -
  have "concat (context_parts question academic_docs history)
      \<notin> set (map classify_prompt document_contents)"
  proof
    assume "concat (context_parts question academic_docs history)
      \<in> set (map classify_prompt document_contents)"
    then obtain d where "classify_prompt d = concat (context_parts question academic_docs history)"
      by auto
    with classify_prompt_not_generation show False
      by blast
  qed
  with assms(1,2) classify_docs_all_non_academic [OF assms(3)] show ?thesis
    by (simp add: generate_response_def)
qed

theorem non_academic_documents_short_circuit_witness:
  "is_academic_question ''Summarize the research findings''
   \<and> [''my resume'', ''a shopping list''] \<noteq> []
   \<and> \<not> fst (is_academic_content (always_reply ''NON_ACADEMIC'') [] ''my resume'')
   \<and> \<not> fst (is_academic_content (always_reply ''NON_ACADEMIC'')
              [classify_prompt ''my resume''] ''a shopping list'')
   \<and> generate_response (always_reply ''NON_ACADEMIC'') [] ''Summarize the research findings''
        [''my resume'', ''a shopping list''] example_history
       = (GenSuccess not_academic_document_message False,
          [] @ map classify_prompt [''my resume'', ''a shopping list''])"
proof -
  have q: "is_academic_question ''Summarize the research findings''"
    by code_simp
  have d: "[''my resume'', ''a shopping list''] \<noteq> []"
    by simp
  have u: "str_upper (str_strip ''NON_ACADEMIC'') \<noteq> code_points ''ACADEMIC''"
    by code_simp
  have n: "\<forall>i < length [''my resume'', ''a shopping list''].
         \<not> fst (is_academic_content (always_reply ''NON_ACADEMIC'')
                  ([] @ map classify_prompt (take i [''my resume'', ''a shopping list'']))
                  ([''my resume'', ''a shopping list''] ! i))"
    by (simp add: is_academic_content_def generate_content_def always_reply_def u)
  have n0: "\<not> fst (is_academic_content (always_reply ''NON_ACADEMIC'') [] ''my resume'')"
    by (simp add: is_academic_content_def generate_content_def always_reply_def u)
  have n1: "\<not> fst (is_academic_content (always_reply ''NON_ACADEMIC'')
              [classify_prompt ''my resume''] ''a shopping list'')"
    by (simp add: is_academic_content_def generate_content_def always_reply_def u)
  from non_academic_documents_short_circuit [OF q d n] q d n0 n1 show ?thesis
    by blast
qed

text \<open>
  C6. When the history has more than 10 turns and the generation call is reached (the
  question is academic and the extracts do not short-circuit), the prompt sent holds,
  after the system text and the document section, the history header followed by exactly
  the turns at the last 10 positions of the history, in ascending position, each rendered
  as separator, \<open>User\<close> or \<open>Assistant\<close>, colon, space and the turn's content; then the
  current question. No earlier turn is rendered.
\<close>

theorem history_window:
  assumes "10 < length chat_history"
    and "is_academic_question question"
    and "classify_docs cap log document_contents = (academic_docs, non_academic_docs, log1)"
    and "\<not> (non_academic_docs \<noteq> [] \<and> academic_docs = [])"
  shows "snd (generate_response cap log question document_contents chat_history)
     = log1 @ [concat ([system_prompt] @ document_section academic_docs
          @ [sep @ sep @ ''Previous Conversation:'']
          @ map (\<lambda>i. sep @ (if msg_role (chat_history ! i) = ''user'' then ''User''
                            else ''Assistant'')
                      @ '': '' @ msg_content (chat_history ! i))
                [length chat_history - 10 ..< length chat_history]
          @ [sep @ sep @ ''Current Question: '' @ question,
             sep @ sep @ ''Please provide a comprehensive, academic response:''])]"
proof -
  from assms(1) have ne: "chat_history \<noteq> []"
    by auto
  have docs: "(if document_contents \<noteq> [] then classify_docs cap log document_contents
               else ([], [], log)) = (academic_docs, non_academic_docs, log1)"
    using assms(3) by (cases document_contents) auto
  have hist: "history_section chat_history =
      (sep @ sep @ ''Previous Conversation:'')
      # map (\<lambda>i. sep @ (if msg_role (chat_history ! i) = ''user'' then ''User''
                            else ''Assistant'')
                      @ '': '' @ msg_content (chat_history ! i))
            [length chat_history - 10 ..< length chat_history]"
    using ne by (simp add: history_section_def last_n_def drop_as_nth render_turn_def)
  have "snd (generate_response cap log question document_contents chat_history)
      = log1 @ [concat (context_parts question academic_docs chat_history)]"
    using assms(2,4) unfolding generate_response_def docs
    by (auto simp: generate_content_def Let_def split: reply.splits)
  then show ?thesis
    by (simp add: context_parts_def hist)
qed

theorem history_window_witness:
  "10 < length example_history
   \<and> is_academic_question ''Explain the theory of relativity''
   \<and> classify_docs (always_reply ''An answer.'') [] [] = ([], [], [])
   \<and> snd (generate_response (always_reply ''An answer.'') []
             ''Explain the theory of relativity'' [] example_history)
     = [] @ [concat ([system_prompt] @ document_section []
          @ [sep @ sep @ ''Previous Conversation:'']
          @ map (\<lambda>i. sep @ (if msg_role (example_history ! i) = ''user'' then ''User''
                            else ''Assistant'')
                      @ '': '' @ msg_content (example_history ! i))
                [length example_history - 10 ..< length example_history]
          @ [sep @ sep @ ''Current Question: '' @ ''Explain the theory of relativity'',
             sep @ sep @ ''Please provide a comprehensive, academic response:''])]
   \<and> map (\<lambda>i. msg_content (example_history ! i))
         [length example_history - 10 ..< length example_history]
     = [''turn 2'', ''turn 3'', ''turn 4'', ''turn 5'', ''turn 6'', ''turn 7'', ''turn 8'',
        ''turn 9'', ''turn 10'', ''turn 11'']"
proof -
  have l: "10 < length example_history"
    by (simp add: example_history_def)
  have q: "is_academic_question ''Explain the theory of relativity''"
    by code_simp
  have c: "classify_docs (always_reply ''An answer.'') [] [] = ([], [], [])"
    by simp
  have e: "\<not> (([]::string list) \<noteq> [] \<and> ([]::string list) = [])"
    by simp
  have t: "map (\<lambda>i. msg_content (example_history ! i))
         [length example_history - 10 ..< length example_history]
     = [''turn 2'', ''turn 3'', ''turn 4'', ''turn 5'', ''turn 6'', ''turn 7'', ''turn 8'',
        ''turn 9'', ''turn 10'', ''turn 11'']"
    by code_simp
  from history_window [OF l q c e] l q c t show ?thesis
    by blast
qed

section \<open>Properties of the message endpoint\<close>

lemma request_store: "store (snd (request down w)) = store w"
  by (simp add: request_def)

lemma request_log: "prompt_log (snd (request down w)) = prompt_log w"
  by (simp add: request_def)








end
